theory Spec2Isabelle
  imports Complex_Main
begin

section \<open>The window specification\<close>

text \<open>
  The dataclass \<^verbatim>\<open>WindowSpec\<close> of \<^verbatim>\<open>gen_window3.py\<close>. Lengths are Python floats;
  they are read here as real numbers, so rounding is not part of the model. Bar counts
  are Python ints. The distribution mode is an arbitrary string at run time (the
  \<^verbatim>\<open>Literal\<close> annotation is not enforced), which is why the generator checks it.
\<close>

record WindowSpec =
  width_mm :: real
  height_mm :: real
  frame_width_mm :: real
  num_vertical_bars :: int
  num_horizontal_bars :: int
  sash_bar_width_mm :: real
  arch_height_mm :: real
  center_vertical_bar_width_mm :: "real option"
  horizontal_distribution_mode :: string
  frame_color :: string
  glass_color :: string
  bar_color :: string

text \<open>Construction with the dataclass's default colours.\<close>

definition window_spec ::
  "real \<Rightarrow> real \<Rightarrow> real \<Rightarrow> int \<Rightarrow> int \<Rightarrow> real \<Rightarrow> real \<Rightarrow> real option \<Rightarrow> string \<Rightarrow> WindowSpec" where
  "window_spec W H FW NV NH BW AH C m =
     \<lparr>width_mm = W, height_mm = H, frame_width_mm = FW,
      num_vertical_bars = NV, num_horizontal_bars = NH, sash_bar_width_mm = BW,
      arch_height_mm = AH, center_vertical_bar_width_mm = C,
      horizontal_distribution_mode = m,
      frame_color = ''#c7c7c7'', glass_color = ''#e6f2ff'', bar_color = ''#c7c7c7''\<rparr>"

text \<open>
  Every failure of the generator is a \<^verbatim>\<open>ValueError\<close>; the raise sites differ in their
  message only. One constructor stands for each raise site, in source order.
\<close>

datatype error =
    InvalidDimensions
  | InvalidFrameWidth
  | InvalidArchHeight
  | InvalidBarCount
  | InvalidBarWidth
  | InvalidMode
  | NoSpaceBelowChord
  | InsufficientSpace

fun message :: "error \<Rightarrow> string" where
  "message InvalidDimensions = ''Window width and height must be positive.''"
| "message InvalidFrameWidth =
     ''Frame width must be non-negative and less than half the window size.''"
| "message InvalidArchHeight = ''Arch height must be between 0 and the total height.''"
| "message InvalidBarCount = ''Number of sash bars cannot be negative.''"
| "message InvalidBarWidth = ''Sash bar widths must be non-negative.''"
| "message InvalidMode =
     ''horizontal_distribution_mode must be 'even' or 'from_chord'.''"
| "message NoSpaceBelowChord = ''No space below the chord bar to place horizontal bars.''"
| "message InsufficientSpace =
     ''Not enough space to place horizontal bars evenly between chord bar and bottom '' @
     ''with the given sash_bar_width_mm. Reduce bar count/width or increase height.''"

section \<open>Text templates\<close>

text \<open>
  A number in a template is either the literal \<^verbatim>\<open>0\<close> written in the f-string or an
  interpolated float. The conversion of a float to text is Python's and is a parameter
  \<open>fmt\<close> of every rendering function.
\<close>

datatype num = Lit0 | Flt real

fun val :: "num \<Rightarrow> real" where
  "val Lit0 = 0"
| "val (Flt r) = r"

fun show_num :: "(real \<Rightarrow> string) \<Rightarrow> num \<Rightarrow> string" where
  "show_num fmt Lit0 = ''0''"
| "show_num fmt (Flt r) = fmt r"

text \<open>Python's \<^verbatim>\<open>sep.join(xs)\<close>.\<close>

fun join :: "string \<Rightarrow> string list \<Rightarrow> string" where
  "join sep [] = []"
| "join sep [x] = x"
| "join sep (x # y # ys) = x @ sep @ join sep (y # ys)"

subsection \<open>Path data\<close>

text \<open>
  The path strings use four commands; every arc is written with the flags \<^verbatim>\<open>0 0 1\<close>.
  A path is the list of its commands, rendered with single blanks between them.
\<close>

datatype path_cmd =
    MoveTo num num
  | ArcTo num num num num
  | LineTo num num
  | ClosePath

type_synonym path = "path_cmd list"

fun render_cmd :: "(real \<Rightarrow> string) \<Rightarrow> path_cmd \<Rightarrow> string" where
  "render_cmd fmt (MoveTo x y) = ''M '' @ show_num fmt x @ '','' @ show_num fmt y"
| "render_cmd fmt (ArcTo rx ry x y) =
     ''A '' @ show_num fmt rx @ '','' @ show_num fmt ry @ '' 0 0 1 '' @
     show_num fmt x @ '','' @ show_num fmt y"
| "render_cmd fmt (LineTo x y) = ''L '' @ show_num fmt x @ '','' @ show_num fmt y"
| "render_cmd fmt ClosePath = ''Z''"

definition render_path :: "(real \<Rightarrow> string) \<Rightarrow> path \<Rightarrow> string" where
  "render_path fmt p = join '' '' (map (render_cmd fmt) p)"

subsection \<open>Path builders\<close>

definition path_arch_outer :: "real \<Rightarrow> real \<Rightarrow> real \<Rightarrow> path" where
  "path_arch_outer width height arch_h =
     [MoveTo Lit0 (Flt arch_h),
      ArcTo (Flt (width / 2)) (Flt arch_h) (Flt width) (Flt arch_h),
      LineTo (Flt width) (Flt height),
      LineTo Lit0 (Flt height),
      ClosePath]"

definition path_arch_inner :: "real \<Rightarrow> real \<Rightarrow> real \<Rightarrow> real \<Rightarrow> path" where
  "path_arch_inner width height frame_w arch_h =
     (let wi = max 0 (width - 2 * frame_w);
          hi = max 0 (height - 2 * frame_w);
          arch_inner = max 0 (arch_h - frame_w);
          x0 = frame_w;
          y0 = frame_w
      in [MoveTo (Flt x0) (Flt (y0 + arch_inner)),
          ArcTo (Flt (wi / 2)) (Flt arch_inner) (Flt (x0 + wi)) (Flt (y0 + arch_inner)),
          LineTo (Flt (x0 + wi)) (Flt (y0 + hi)),
          LineTo (Flt x0) (Flt (y0 + hi)),
          ClosePath])"

definition compound_frame_path_rect :: "real \<Rightarrow> real \<Rightarrow> real \<Rightarrow> path" where
  "compound_frame_path_rect W H FW =
     [MoveTo Lit0 Lit0, LineTo (Flt W) Lit0, LineTo (Flt W) (Flt H), LineTo Lit0 (Flt H),
      ClosePath,
      MoveTo (Flt FW) (Flt FW), LineTo (Flt (W - FW)) (Flt FW),
      LineTo (Flt (W - FW)) (Flt (H - FW)), LineTo (Flt FW) (Flt (H - FW)),
      ClosePath]"

text \<open>
  Both parts start with \<^verbatim>\<open>M\<close> and end with \<^verbatim>\<open>Z\<close>, so \<^verbatim>\<open>strip()\<close> changes nothing
  and the blank between them is the blank between two commands.
\<close>

definition compound_frame_path_arch :: "real \<Rightarrow> real \<Rightarrow> real \<Rightarrow> real \<Rightarrow> path" where
  "compound_frame_path_arch W H FW AH = path_arch_outer W H AH @ path_arch_inner W H FW AH"

subsection \<open>Lines of the document\<close>

text \<open>A bar rectangle: vertical bars are written with \<^verbatim>\<open>y="0"\<close>, horizontal ones with
  \<^verbatim>\<open>x="0"\<close>.\<close>

datatype rect = Rect (rect_x: num) (rect_y: num) (rect_w: real) (rect_h: real)

datatype svg_line =
    XmlDecl
  | SvgOpen real real
  | DefsOpen
  | ClipPathOpen
  | ClipShapePath path
  | ClipShapeRect real real real real
  | ClipPathClose
  | DefsClose
  | GlassPath path string
  | GlassRect real real real real string
  | FramePath path string
  | GroupOpen
  | BarRect rect string
  | GroupClose
  | SvgClose

fun render_line :: "(real \<Rightarrow> string) \<Rightarrow> svg_line \<Rightarrow> string" where
  \<open>render_line fmt XmlDecl = ''<?xml version="1.0" encoding="UTF-8"?>''\<close>
| \<open>render_line fmt (SvgOpen W H) =
     ''<svg xmlns="http://www.w3.org/2000/svg" width="'' @ fmt W @ ''mm" height="'' @ fmt H @
     ''mm" viewBox="0 0 '' @ fmt W @ '' '' @ fmt H @ ''">''\<close>
| \<open>render_line fmt DefsOpen = ''  <defs>''\<close>
| \<open>render_line fmt ClipPathOpen = ''    <clipPath id="glazingClip">''\<close>
| \<open>render_line fmt (ClipShapePath p) = ''      <path d="'' @ render_path fmt p @ ''"/>''\<close>
| \<open>render_line fmt (ClipShapeRect x y w h) =
     ''      <rect x="'' @ fmt x @ ''" y="'' @ fmt y @ ''" width="'' @ fmt w @
     ''" height="'' @ fmt h @ ''"/>''\<close>
| \<open>render_line fmt ClipPathClose = ''    </clipPath>''\<close>
| \<open>render_line fmt DefsClose = ''  </defs>''\<close>
| \<open>render_line fmt (GlassPath p c) =
     ''  <path d="'' @ render_path fmt p @ ''" fill="'' @ c @ ''" stroke="none"/>''\<close>
| \<open>render_line fmt (GlassRect x y w h c) =
     ''  <rect x="'' @ fmt x @ ''" y="'' @ fmt y @ ''" width="'' @ fmt w @
     ''" height="'' @ fmt h @ ''" fill="'' @ c @ ''" stroke="none"/>''\<close>
| \<open>render_line fmt (FramePath p c) =
     ''  <path d="'' @ render_path fmt p @ ''" fill="'' @ c @
     ''" fill-rule="evenodd" stroke="none"/>''\<close>
| \<open>render_line fmt GroupOpen = ''  <g clip-path="url(#glazingClip)">''\<close>
| \<open>render_line fmt (BarRect r c) =
     ''    <rect x="'' @ show_num fmt (rect_x r) @ ''" y="'' @ show_num fmt (rect_y r) @
     ''" width="'' @ fmt (rect_w r) @ ''" height="'' @ fmt (rect_h r) @
     ''" fill="'' @ c @ ''" stroke="none"/>''\<close>
| \<open>render_line fmt GroupClose = ''  </g>''\<close>
| \<open>render_line fmt SvgClose = ''</svg>''\<close>

section \<open>The generator\<close>

subsection \<open>Resolved values and the aperture\<close>

text \<open>
  Line 68: the centre width is taken when the field is truthy. \<^verbatim>\<open>None\<close> and the float
  zero are both falsy in Python.
\<close>

definition CWB :: "WindowSpec \<Rightarrow> real" where
  "CWB spec =
     (case center_vertical_bar_width_mm spec of
        None \<Rightarrow> sash_bar_width_mm spec
      | Some c \<Rightarrow> if c = 0 then sash_bar_width_mm spec else c)"

definition inner_x :: "WindowSpec \<Rightarrow> real" where
  "inner_x spec = frame_width_mm spec"

definition inner_y :: "WindowSpec \<Rightarrow> real" where
  "inner_y spec = frame_width_mm spec"

definition inner_w :: "WindowSpec \<Rightarrow> real" where
  "inner_w spec = width_mm spec - 2 * frame_width_mm spec"

definition inner_h :: "WindowSpec \<Rightarrow> real" where
  "inner_h spec = height_mm spec - 2 * frame_width_mm spec"

subsection \<open>Validation (lines 70 to 81)\<close>

definition validate :: "WindowSpec \<Rightarrow> error option" where
  "validate spec =
     (if width_mm spec \<le> 0 \<or> height_mm spec \<le> 0 then Some InvalidDimensions
      else if frame_width_mm spec < 0
              \<or> 2 * frame_width_mm spec \<ge> min (width_mm spec) (height_mm spec)
        then Some InvalidFrameWidth
      else if arch_height_mm spec < 0 \<or> arch_height_mm spec > height_mm spec
        then Some InvalidArchHeight
      else if num_vertical_bars spec < 0 \<or> num_horizontal_bars spec < 0
        then Some InvalidBarCount
      else if sash_bar_width_mm spec < 0 \<or> CWB spec < 0 then Some InvalidBarWidth
      else if horizontal_distribution_mode spec \<noteq> ''even''
              \<and> horizontal_distribution_mode spec \<noteq> ''from_chord''
        then Some InvalidMode
      else None)"

subsection \<open>Vertical bars (lines 123 to 130)\<close>

definition vertical_bar :: "WindowSpec \<Rightarrow> int \<Rightarrow> rect" where
  "vertical_bar spec i =
     (let NV = num_vertical_bars spec;
          x_gap = inner_w spec / real_of_int (NV + 1);
          cx = inner_x spec + real_of_int (i + 1) * x_gap;
          w = (if NV mod 2 = 1 \<and> i = NV div 2 then CWB spec else sash_bar_width_mm spec);
          x = cx - w / 2
      in Rect (Flt x) Lit0 w (height_mm spec))"

definition vertical_bars :: "WindowSpec \<Rightarrow> rect list" where
  "vertical_bars spec =
     (if num_vertical_bars spec > 0 \<and> inner_w spec > 0
      then map (vertical_bar spec) [0..num_vertical_bars spec - 1]
      else [])"

subsection \<open>Horizontal bars (lines 133 to 171)\<close>

definition arch_inner :: "WindowSpec \<Rightarrow> real" where
  "arch_inner spec = max 0 (arch_height_mm spec - frame_width_mm spec)"

definition chord_y :: "WindowSpec \<Rightarrow> real" where
  "chord_y spec = inner_y spec + arch_inner spec"

definition start_y :: "WindowSpec \<Rightarrow> real" where
  "start_y spec = chord_y spec + frame_width_mm spec"

definition bottom_y :: "WindowSpec \<Rightarrow> real" where
  "bottom_y spec = inner_y spec + inner_h spec"

text \<open>The available span \<^verbatim>\<open>T\<close> of line 145.\<close>

definition T_span :: "WindowSpec \<Rightarrow> real" where
  "T_span spec = bottom_y spec - start_y spec"

text \<open>The gap \<^verbatim>\<open>g\<close> as line 152 computes it, before line 158 clamps it.\<close>

definition g_raw :: "WindowSpec \<Rightarrow> real" where
  "g_raw spec =
     (T_span spec - real_of_int (num_horizontal_bars spec) * sash_bar_width_mm spec)
       / real_of_int (num_horizontal_bars spec + 1)"

definition chord_bar :: "WindowSpec \<Rightarrow> rect" where
  "chord_bar spec = Rect Lit0 (Flt (chord_y spec)) (width_mm spec) (frame_width_mm spec)"

definition lower_bar :: "WindowSpec \<Rightarrow> int \<Rightarrow> rect" where
  "lower_bar spec k =
     (let BW = sash_bar_width_mm spec;
          g = max (g_raw spec) 0;
          y_top = start_y spec + g + real_of_int k * (BW + g)
      in Rect Lit0 (Flt y_top) (width_mm spec) BW)"

definition even_bar :: "WindowSpec \<Rightarrow> int \<Rightarrow> rect" where
  "even_bar spec j =
     (let y_gap = inner_h spec / real_of_int (num_horizontal_bars spec + 1);
          cy = inner_y spec + real_of_int (j + 1) * y_gap;
          y = cy - sash_bar_width_mm spec / 2
      in Rect Lit0 (Flt y) (width_mm spec) (sash_bar_width_mm spec))"

definition horizontal_bars :: "WindowSpec \<Rightarrow> error + rect list" where
  "horizontal_bars spec =
     (if inner_h spec > 0 then
        if horizontal_distribution_mode spec = ''from_chord'' \<and> arch_height_mm spec > 0 then
          if num_horizontal_bars spec > 0 then
            if T_span spec \<le> 0 then Inl NoSpaceBelowChord
            else if g_raw spec < - (1 / 1000000000) then Inl InsufficientSpace
            else Inr (chord_bar spec # map (lower_bar spec) [0..num_horizontal_bars spec - 1])
          else Inr [chord_bar spec]
        else if num_horizontal_bars spec > 0
          then Inr (map (even_bar spec) [0..num_horizontal_bars spec - 1])
          else Inr []
      else Inr [])"

subsection \<open>The document (lines 59 to 175)\<close>

definition clip_shape :: "WindowSpec \<Rightarrow> svg_line" where
  "clip_shape spec =
     (if arch_height_mm spec > 0
      then ClipShapePath (path_arch_inner (width_mm spec) (height_mm spec)
                            (frame_width_mm spec) (arch_height_mm spec))
      else ClipShapeRect (inner_x spec) (inner_y spec) (inner_w spec) (inner_h spec))"

definition glass :: "WindowSpec \<Rightarrow> svg_line" where
  "glass spec =
     (if arch_height_mm spec > 0
      then GlassPath (path_arch_inner (width_mm spec) (height_mm spec)
                        (frame_width_mm spec) (arch_height_mm spec)) (glass_color spec)
      else GlassRect (inner_x spec) (inner_y spec) (inner_w spec) (inner_h spec)
             (glass_color spec))"

definition frame_path :: "WindowSpec \<Rightarrow> path" where
  "frame_path spec =
     (if arch_height_mm spec > 0
      then compound_frame_path_arch (width_mm spec) (height_mm spec)
             (frame_width_mm spec) (arch_height_mm spec)
      else compound_frame_path_rect (width_mm spec) (height_mm spec) (frame_width_mm spec))"

definition generate_window_doc :: "WindowSpec \<Rightarrow> error + svg_line list" where
  "generate_window_doc spec =
     (case validate spec of
        Some e \<Rightarrow> Inl e
      | None \<Rightarrow>
          (case horizontal_bars spec of
             Inl e \<Rightarrow> Inl e
           | Inr hbars \<Rightarrow>
               Inr ([XmlDecl, SvgOpen (width_mm spec) (height_mm spec), DefsOpen, ClipPathOpen,
                     clip_shape spec, ClipPathClose, DefsClose,
                     glass spec,
                     FramePath (frame_path spec) (frame_color spec),
                     GroupOpen]
                    @ map (\<lambda>r. BarRect r (bar_color spec)) (vertical_bars spec)
                    @ map (\<lambda>r. BarRect r (bar_color spec)) hbars
                    @ [GroupClose, SvgClose])))"

text \<open>The returned text: the lines joined by newlines.\<close>

definition generate_window_svg :: "(real \<Rightarrow> string) \<Rightarrow> WindowSpec \<Rightarrow> error + string" where
  "generate_window_svg fmt spec =
     (case generate_window_doc spec of
        Inl e \<Rightarrow> Inl e
      | Inr doc \<Rightarrow> Inr (join [CHR 0x0A] (map (render_line fmt) doc)))"

subsection \<open>Reading a document\<close>

text \<open>
  The bar rectangles of a document, in order, and the two kinds told apart the way the
  text tells them apart: a vertical bar has the literal \<^verbatim>\<open>y="0"\<close>, a horizontal bar the
  literal \<^verbatim>\<open>x="0"\<close>.
\<close>

fun bar_of :: "svg_line \<Rightarrow> rect list" where
  "bar_of (BarRect r c) = [r]"
| "bar_of _ = []"

definition emitted_bars :: "svg_line list \<Rightarrow> rect list" where
  "emitted_bars doc = concat (map bar_of doc)"

definition vertical_rects :: "svg_line list \<Rightarrow> rect list" where
  "vertical_rects doc = filter (\<lambda>r. rect_y r = Lit0) (emitted_bars doc)"

definition horizontal_rects :: "svg_line list \<Rightarrow> rect list" where
  "horizontal_rects doc = filter (\<lambda>r. rect_x r = Lit0) (emitted_bars doc)"

text \<open>
  A horizontal bar lies within the aperture's vertical interval when its top edge is not
  above \<open>inner_y\<close> and its bottom edge is not below \<open>inner_y + inner_h\<close>.
\<close>

definition bar_within :: "WindowSpec \<Rightarrow> rect \<Rightarrow> bool" where
  "bar_within spec r \<longleftrightarrow>
     inner_y spec \<le> val (rect_y r) \<and> val (rect_y r) + rect_h r \<le> inner_y spec + inner_h spec"

text \<open>
  The extents of a path whose segments are straight: the bounding box of the points its
  commands name, as \<open>(x, y, width, height)\<close>. An arc of zero rise is a straight segment.
\<close>

fun endpoint :: "path_cmd \<Rightarrow> (real \<times> real) list" where
  "endpoint (MoveTo x y) = [(val x, val y)]"
| "endpoint (ArcTo rx ry x y) = [(val x, val y)]"
| "endpoint (LineTo x y) = [(val x, val y)]"
| "endpoint ClosePath = []"

fun bounds :: "real list \<Rightarrow> (real \<times> real) option" where
  "bounds [] = None"
| "bounds (x # xs) = Some (fold min xs x, fold max xs x)"

definition extents :: "path \<Rightarrow> (real \<times> real \<times> real \<times> real) option" where
  "extents p =
     (let pts = concat (map endpoint p)
      in case (bounds (map fst pts), bounds (map snd pts)) of
           (Some (x0, x1), Some (y0, y1)) \<Rightarrow> Some (x0, y0, x1 - x0, y1 - y0)
         | _ \<Rightarrow> None)"

subsection \<open>Two example windows\<close>

text \<open>
  A rectangular window with three vertical bars and one horizontal bar, and an arched
  window in \<open>from_chord\<close> mode with two bars below the chord bar, each with the document
  the generator returns for it.
\<close>

abbreviation rect_example :: WindowSpec where
  "rect_example \<equiv> window_spec 100 100 10 3 1 6 0 (Some 8) ''even''"

abbreviation rect_example_doc :: "svg_line list" where
  "rect_example_doc \<equiv>
     [XmlDecl, SvgOpen 100 100, DefsOpen, ClipPathOpen, ClipShapeRect 10 10 80 80,
      ClipPathClose, DefsClose, GlassRect 10 10 80 80 ''#e6f2ff'',
      FramePath (compound_frame_path_rect 100 100 10) ''#c7c7c7'', GroupOpen,
      BarRect (Rect (Flt 27) Lit0 6 100) ''#c7c7c7'',
      BarRect (Rect (Flt 46) Lit0 8 100) ''#c7c7c7'',
      BarRect (Rect (Flt 67) Lit0 6 100) ''#c7c7c7'',
      BarRect (Rect Lit0 (Flt 47) 100 6) ''#c7c7c7'',
      GroupClose, SvgClose]"

abbreviation arch_example :: WindowSpec where
  "arch_example \<equiv> window_spec 100 100 10 0 2 6 20 None ''from_chord''"

abbreviation arch_example_doc :: "svg_line list" where
  "arch_example_doc \<equiv>
     [XmlDecl, SvgOpen 100 100, DefsOpen, ClipPathOpen,
      ClipShapePath (path_arch_inner 100 100 10 20),
      ClipPathClose, DefsClose, GlassPath (path_arch_inner 100 100 10 20) ''#e6f2ff'',
      FramePath (compound_frame_path_arch 100 100 10 20) ''#c7c7c7'', GroupOpen,
      BarRect (Rect Lit0 (Flt 20) 100 10) ''#c7c7c7'',
      BarRect (Rect Lit0 (Flt 46) 100 6) ''#c7c7c7'',
      BarRect (Rect Lit0 (Flt 68) 100 6) ''#c7c7c7'',
      GroupClose, SvgClose]"

section \<open>Basic facts\<close>

lemma validate_None_iff:
  "validate spec = None \<longleftrightarrow>
     0 < width_mm spec \<and> 0 < height_mm spec \<and>
     0 \<le> frame_width_mm spec \<and>
     2 * frame_width_mm spec < min (width_mm spec) (height_mm spec) \<and>
     0 \<le> arch_height_mm spec \<and> arch_height_mm spec \<le> height_mm spec \<and>
     0 \<le> num_vertical_bars spec \<and> 0 \<le> num_horizontal_bars spec \<and>
     0 \<le> sash_bar_width_mm spec \<and> 0 \<le> CWB spec \<and>
     (horizontal_distribution_mode spec = ''even''
        \<or> horizontal_distribution_mode spec = ''from_chord'')"
  unfolding validate_def by (auto simp: not_le not_less)

lemma validate_inner_h: "validate spec = None \<Longrightarrow> 0 < inner_h spec"
  by (simp add: validate_None_iff inner_h_def)

lemma validate_inner_w: "validate spec = None \<Longrightarrow> 0 < inner_w spec"
  by (simp add: validate_None_iff inner_w_def)

lemma emitted_bars_append: "emitted_bars (xs @ ys) = emitted_bars xs @ emitted_bars ys"
  by (simp add: emitted_bars_def)

lemma emitted_bars_BarRect: "emitted_bars (map (\<lambda>r. BarRect r c) rs) = rs"
  by (induction rs) (simp_all add: emitted_bars_def)

lemma vertical_bars_shape:
  "r \<in> set (vertical_bars spec) \<Longrightarrow> rect_y r = Lit0 \<and> rect_x r \<noteq> Lit0"
  by (auto simp: vertical_bars_def vertical_bar_def Let_def split: if_splits)

lemma horizontal_bars_shape:
  "horizontal_bars spec = Inr hs \<Longrightarrow> r \<in> set hs \<Longrightarrow> rect_x r = Lit0 \<and> rect_y r \<noteq> Lit0"
  by (auto simp: horizontal_bars_def chord_bar_def lower_bar_def even_bar_def Let_def
           split: if_splits)

lemma generate_window_doc_Inr:
  "generate_window_doc spec = Inr doc \<longleftrightarrow>
     validate spec = None \<and>
     (\<exists>hs. horizontal_bars spec = Inr hs \<and>
        doc = [XmlDecl, SvgOpen (width_mm spec) (height_mm spec), DefsOpen, ClipPathOpen,
               clip_shape spec, ClipPathClose, DefsClose, glass spec,
               FramePath (frame_path spec) (frame_color spec), GroupOpen]
              @ map (\<lambda>r. BarRect r (bar_color spec)) (vertical_bars spec)
              @ map (\<lambda>r. BarRect r (bar_color spec)) hs
              @ [GroupClose, SvgClose])"
  by (auto simp: generate_window_doc_def split: option.splits sum.splits)

lemma emitted_bars_doc:
  assumes "generate_window_doc spec = Inr doc"
  shows "\<exists>hs. horizontal_bars spec = Inr hs \<and> emitted_bars doc = vertical_bars spec @ hs"
proof -
  from assms obtain hs where hs: "horizontal_bars spec = Inr hs"
    and doc: "doc = [XmlDecl, SvgOpen (width_mm spec) (height_mm spec), DefsOpen, ClipPathOpen,
               clip_shape spec, ClipPathClose, DefsClose, glass spec,
               FramePath (frame_path spec) (frame_color spec), GroupOpen]
              @ map (\<lambda>r. BarRect r (bar_color spec)) (vertical_bars spec)
              @ map (\<lambda>r. BarRect r (bar_color spec)) hs
              @ [GroupClose, SvgClose]"
    unfolding generate_window_doc_Inr by blast
  have pre: "emitted_bars [XmlDecl, SvgOpen (width_mm spec) (height_mm spec), DefsOpen,
               ClipPathOpen, clip_shape spec, ClipPathClose, DefsClose, glass spec,
               FramePath (frame_path spec) (frame_color spec), GroupOpen] = []"
    by (simp add: emitted_bars_def clip_shape_def glass_def)
  have post: "emitted_bars [GroupClose, SvgClose] = []"
    by (simp add: emitted_bars_def)
  have "emitted_bars doc = vertical_bars spec @ hs"
    unfolding doc emitted_bars_append emitted_bars_BarRect pre post by simp
  with hs show ?thesis by blast
qed

lemma filter_all: "(\<forall>x \<in> set xs. P x) \<Longrightarrow> filter P xs = xs"
  by (induction xs) auto

lemma filter_none: "(\<forall>x \<in> set xs. \<not> P x) \<Longrightarrow> filter P xs = []"
  by (induction xs) auto

text \<open>The bars read back from a generated document are the bars the generator computed.\<close>

lemma rects_doc:
  assumes "generate_window_doc spec = Inr doc"
  shows "vertical_rects doc = vertical_bars spec
         \<and> horizontal_bars spec = Inr (horizontal_rects doc)"
proof -
  from emitted_bars_doc[OF assms] obtain hs where hs: "horizontal_bars spec = Inr hs"
    and eb: "emitted_bars doc = vertical_bars spec @ hs" by blast
  have v1: "filter (\<lambda>r. rect_y r = Lit0) (vertical_bars spec) = vertical_bars spec"
    by (rule filter_all) (simp add: vertical_bars_shape)
  have v2: "filter (\<lambda>r. rect_y r = Lit0) hs = []"
    by (rule filter_none) (use horizontal_bars_shape[OF hs] in auto)
  have h1: "filter (\<lambda>r. rect_x r = Lit0) (vertical_bars spec) = []"
    by (rule filter_none) (use vertical_bars_shape in auto)
  have h2: "filter (\<lambda>r. rect_x r = Lit0) hs = hs"
    by (rule filter_all) (use horizontal_bars_shape[OF hs] in auto)
  show ?thesis
    by (simp add: vertical_rects_def horizontal_rects_def eb v1 v2 h1 h2 hs)
qed

lemma generate_window_doc_Inl:
  "generate_window_doc spec = Inl e \<longleftrightarrow>
     validate spec = Some e \<or> (validate spec = None \<and> horizontal_bars spec = Inl e)"
  by (auto simp: generate_window_doc_def split: option.splits sum.splits)

lemma horizontal_bars_chord:
  assumes "validate spec = None" "horizontal_distribution_mode spec = ''from_chord''"
    "0 < arch_height_mm spec" "0 < num_horizontal_bars spec"
  shows "horizontal_bars spec =
     (if T_span spec \<le> 0 then Inl NoSpaceBelowChord
      else if g_raw spec < - (1 / 1000000000) then Inl InsufficientSpace
      else Inr (chord_bar spec # map (lower_bar spec) [0..num_horizontal_bars spec - 1]))"
  using assms validate_inner_h[OF assms(1)] by (simp add: horizontal_bars_def)

lemmas geom_defs = T_span_def bottom_y_def start_y_def chord_y_def inner_y_def inner_h_def
  arch_inner_def g_raw_def inner_x_def inner_w_def

lemma window_spec_sel [simp]:
  "width_mm (window_spec W H FW NV NH BW AH C m) = W"
  "height_mm (window_spec W H FW NV NH BW AH C m) = H"
  "frame_width_mm (window_spec W H FW NV NH BW AH C m) = FW"
  "num_vertical_bars (window_spec W H FW NV NH BW AH C m) = NV"
  "num_horizontal_bars (window_spec W H FW NV NH BW AH C m) = NH"
  "sash_bar_width_mm (window_spec W H FW NV NH BW AH C m) = BW"
  "arch_height_mm (window_spec W H FW NV NH BW AH C m) = AH"
  "center_vertical_bar_width_mm (window_spec W H FW NV NH BW AH C m) = C"
  "horizontal_distribution_mode (window_spec W H FW NV NH BW AH C m) = m"
  "frame_color (window_spec W H FW NV NH BW AH C m) = ''#c7c7c7''"
  "glass_color (window_spec W H FW NV NH BW AH C m) = ''#e6f2ff''"
  "bar_color (window_spec W H FW NV NH BW AH C m) = ''#c7c7c7''"
  by (simp_all add: window_spec_def)

section \<open>No room below the chord bar\<close>

text \<open>
  Claim C10. In \<open>from_chord\<close> mode with a positive arch height and at least one
  horizontal bar, generation fails whenever the span \<open>T\<close> below the chord bar is zero or
  negative: with the validation error if validation fails, otherwise with the error of
  line 148. The rule is stronger than a test of the gap alone: the spec
  \<open>12 \<times> 12\<close>, frame 4, arch 1, one bar of width 0 passes validation, has \<open>T = 0\<close> and
  gap \<open>0\<close>, and is rejected.
\<close>

theorem chord_span_rejected:
  "(horizontal_distribution_mode spec = ''from_chord'' \<and> 0 < arch_height_mm spec
      \<and> 0 < num_horizontal_bars spec \<and> T_span spec \<le> 0
     \<longrightarrow> isl (generate_window_doc spec)
         \<and> (validate spec = None \<longrightarrow> generate_window_doc spec = Inl NoSpaceBelowChord))
   \<and> validate (window_spec 12 12 4 0 1 0 1 None ''from_chord'') = None
   \<and> T_span (window_spec 12 12 4 0 1 0 1 None ''from_chord'') = 0
   \<and> g_raw (window_spec 12 12 4 0 1 0 1 None ''from_chord'') = 0
   \<and> generate_window_doc (window_spec 12 12 4 0 1 0 1 None ''from_chord'')
       = Inl NoSpaceBelowChord"
proof -
  have gen: "isl (generate_window_doc spec)
         \<and> (validate spec = None \<longrightarrow> generate_window_doc spec = Inl NoSpaceBelowChord)"
    if h: "horizontal_distribution_mode spec = ''from_chord''" "0 < arch_height_mm spec"
      "0 < num_horizontal_bars spec" "T_span spec \<le> 0" for spec
  proof (cases "validate spec")
    case None
    then have "horizontal_bars spec = Inl NoSpaceBelowChord"
      using h by (simp add: horizontal_bars_chord)
    with None show ?thesis by (simp add: generate_window_doc_def)
  next
    case (Some e)
    then show ?thesis by (simp add: generate_window_doc_def)
  qed
  let ?s = "window_spec 12 12 4 0 1 0 1 None ''from_chord''"
  have v: "validate ?s = None" by (simp add: validate_def CWB_def)
  have t: "T_span ?s = 0" by (simp add: geom_defs)
  have g: "g_raw ?s = 0" by (simp add: geom_defs)
  have r: "generate_window_doc ?s = Inl NoSpaceBelowChord"
    using gen[of ?s] v t by simp
  show ?thesis using gen v t g r by blast
qed

theorem chord_span_rejected_witness:
  "horizontal_distribution_mode (window_spec 10 10 4 0 1 2 1 None ''from_chord'') = ''from_chord''
   \<and> 0 < arch_height_mm (window_spec 10 10 4 0 1 2 1 None ''from_chord'')
   \<and> 0 < num_horizontal_bars (window_spec 10 10 4 0 1 2 1 None ''from_chord'')
   \<and> T_span (window_spec 10 10 4 0 1 2 1 None ''from_chord'') \<le> 0
   \<and> validate (window_spec 10 10 4 0 1 2 1 None ''from_chord'') = None
   \<and> generate_window_doc (window_spec 10 10 4 0 1 2 1 None ''from_chord'')
       = Inl NoSpaceBelowChord"
proof -
  let ?s = "window_spec 10 10 4 0 1 2 1 None ''from_chord''"
  have t: "T_span ?s \<le> 0" by (simp add: geom_defs)
  have v: "validate ?s = None" by (simp add: validate_def CWB_def)
  show ?thesis using chord_span_rejected [of ?s] t v by simp
qed

section \<open>The gap test of the chord layout\<close>

text \<open>
  Claim C1, as stated, fails: the test of line 153 is \<open>g < -1e-9\<close>, and line 158 then
  clamps the gap to zero. With a 100 by 100 window, frame 10, arch 20 and one bar of width
  \<open>60 + 1e-9\<close> the span is 60, the gap is negative, and the generator returns a document
  whose bar starts at the bottom of the chord bar and ends below the aperture.
\<close>

theorem gap_tolerance_counterexample:
  "validate (window_spec 100 100 10 0 1 (60 + 1 / 1000000000) 20 None ''from_chord'') = None
   \<and> g_raw (window_spec 100 100 10 0 1 (60 + 1 / 1000000000) 20 None ''from_chord'') < 0
   \<and> generate_window_doc (window_spec 100 100 10 0 1 (60 + 1 / 1000000000) 20 None ''from_chord'')
        \<noteq> Inl InsufficientSpace
   \<and> \<not> isl (generate_window_doc
               (window_spec 100 100 10 0 1 (60 + 1 / 1000000000) 20 None ''from_chord''))
   \<and> horizontal_bars (window_spec 100 100 10 0 1 (60 + 1 / 1000000000) 20 None ''from_chord'')
        = Inr [Rect Lit0 (Flt 20) 100 10, Rect Lit0 (Flt 30) 100 (60 + 1 / 1000000000)]"
proof -
  let ?s = "window_spec 100 100 10 0 1 (60 + 1 / 1000000000) 20 None ''from_chord''"
  have v: "validate ?s = None" by (simp add: validate_def CWB_def)
  have g: "g_raw ?s = - (1 / 2000000000)" by (simp add: geom_defs)
  have t: "T_span ?s = 60" by (simp add: geom_defs)
  have u: "[0..num_horizontal_bars ?s - 1] = [0]" by (simp add: upto.simps)
  have c: "chord_bar ?s = Rect Lit0 (Flt 20) 100 10"
    by (simp add: chord_bar_def chord_y_def inner_y_def arch_inner_def)
  have l: "lower_bar ?s 0 = Rect Lit0 (Flt 30) 100 (60 + 1 / 1000000000)"
    using g by (simp add: lower_bar_def Let_def start_y_def chord_y_def inner_y_def arch_inner_def)
  have "horizontal_bars ?s = Inr (chord_bar ?s # map (lower_bar ?s) [0..num_horizontal_bars ?s - 1])"
    using horizontal_bars_chord[OF v] t g by simp
  then have h: "horizontal_bars ?s
        = Inr [Rect Lit0 (Flt 20) 100 10, Rect Lit0 (Flt 30) 100 (60 + 1 / 1000000000)]"
    unfolding u c by (simp only: list.map l)
  show ?thesis using v g h by (simp add: generate_window_doc_def)
qed

text \<open>
  Claim C1, amended. On a spec that passes validation, in \<open>from_chord\<close> mode with a
  positive arch height and at least one horizontal bar, generation fails exactly when
  \<open>T \<le> 0\<close> (the error of line 148) or \<open>g < -1e-9\<close> (the error of line 154, raised
  only when \<open>T > 0\<close>). Otherwise the chord bar and the bars below it are emitted, with
  the gap \<open>max g 0\<close>.
\<close>

theorem insufficient_space_rule:
  assumes "validate spec = None" "horizontal_distribution_mode spec = ''from_chord''"
    "0 < arch_height_mm spec" "0 < num_horizontal_bars spec"
  shows "(generate_window_doc spec = Inl InsufficientSpace
            \<longleftrightarrow> 0 < T_span spec \<and> g_raw spec < - (1 / 1000000000))
       \<and> (generate_window_doc spec = Inl NoSpaceBelowChord \<longleftrightarrow> T_span spec \<le> 0)
       \<and> (isl (generate_window_doc spec)
            \<longleftrightarrow> T_span spec \<le> 0 \<or> g_raw spec < - (1 / 1000000000))
       \<and> (\<not> isl (generate_window_doc spec) \<longrightarrow>
            horizontal_bars spec
              = Inr (chord_bar spec # map (lower_bar spec) [0..num_horizontal_bars spec - 1]))"
  using assms(1) horizontal_bars_chord[OF assms]
  by (simp add: generate_window_doc_def)

theorem insufficient_space_rule_witness:
  "validate (window_spec 100 100 10 0 2 40 20 None ''from_chord'') = None
   \<and> horizontal_distribution_mode (window_spec 100 100 10 0 2 40 20 None ''from_chord'') = ''from_chord''
   \<and> 0 < arch_height_mm (window_spec 100 100 10 0 2 40 20 None ''from_chord'')
   \<and> 0 < num_horizontal_bars (window_spec 100 100 10 0 2 40 20 None ''from_chord'')
   \<and> 0 < T_span (window_spec 100 100 10 0 2 40 20 None ''from_chord'')
   \<and> g_raw (window_spec 100 100 10 0 2 40 20 None ''from_chord'') < - (1 / 1000000000)
   \<and> generate_window_doc (window_spec 100 100 10 0 2 40 20 None ''from_chord'')
        = Inl InsufficientSpace"
proof -
  let ?s = "window_spec 100 100 10 0 2 40 20 None ''from_chord''"
  have v: "validate ?s = None" by (simp add: validate_def CWB_def)
  have t: "T_span ?s = 60" by (simp add: geom_defs)
  have g: "g_raw ?s = - (20 / 3)" by (simp add: geom_defs)
  show ?thesis using insufficient_space_rule [of ?s] v t g by simp
qed

section \<open>When generation succeeds\<close>

lemma horizontal_bars_Inl:
  "horizontal_bars spec = Inl e \<Longrightarrow>
     0 < inner_h spec \<and> horizontal_distribution_mode spec = ''from_chord'' \<and> 0 < arch_height_mm spec
     \<and> 0 < num_horizontal_bars spec
     \<and> (e = NoSpaceBelowChord \<and> T_span spec \<le> 0
        \<or> e = InsufficientSpace \<and> 0 < T_span spec \<and> g_raw spec < - (1 / 1000000000))"
  by (auto simp: horizontal_bars_def split: if_splits)

lemma horizontal_bars_isl:
  "isl (horizontal_bars spec) \<longleftrightarrow>
     0 < inner_h spec \<and> horizontal_distribution_mode spec = ''from_chord'' \<and> 0 < arch_height_mm spec
     \<and> 0 < num_horizontal_bars spec
     \<and> (T_span spec \<le> 0 \<or> g_raw spec < - (1 / 1000000000))"
  by (auto simp: horizontal_bars_def split: if_splits)

lemma validate_Some:
  "validate spec = Some e \<Longrightarrow>
     (e = InvalidDimensions \<and> (width_mm spec \<le> 0 \<or> height_mm spec \<le> 0))
   \<or> (e = InvalidFrameWidth \<and> (frame_width_mm spec < 0
          \<or> min (width_mm spec) (height_mm spec) \<le> 2 * frame_width_mm spec))
   \<or> (e = InvalidArchHeight \<and> (arch_height_mm spec < 0 \<or> height_mm spec < arch_height_mm spec))
   \<or> (e = InvalidBarCount \<and> (num_vertical_bars spec < 0 \<or> num_horizontal_bars spec < 0))
   \<or> (e = InvalidBarWidth \<and> (sash_bar_width_mm spec < 0 \<or> CWB spec < 0))
   \<or> (e = InvalidMode \<and> horizontal_distribution_mode spec \<noteq> ''even''
          \<and> horizontal_distribution_mode spec \<noteq> ''from_chord'')"
  by (auto simp: validate_def split: if_splits)

text \<open>
  Claim C7, as stated, fails where the rule for the chord layout is read as \<open>g \<ge> 0\<close>:
  the spec 20 by 30, frame 5, arch 20, three horizontal bars of width 0 passes every
  check of lines 70 to 81 and has gap 0, and generation fails at line 148.
\<close>

theorem success_condition_counterexample:
  "validate (window_spec 20 30 5 2 3 0 20 (Some 2) ''from_chord'') = None
   \<and> 0 \<le> g_raw (window_spec 20 30 5 2 3 0 20 (Some 2) ''from_chord'')
   \<and> generate_window_doc (window_spec 20 30 5 2 3 0 20 (Some 2) ''from_chord'')
        = Inl NoSpaceBelowChord"
proof -
  let ?s = "window_spec 20 30 5 2 3 0 20 (Some 2) ''from_chord''"
  have v: "validate ?s = None" by (simp add: validate_def CWB_def)
  have t: "T_span ?s = 0" by (simp add: geom_defs)
  have g: "g_raw ?s = 0" by (simp add: geom_defs)
  have "horizontal_bars ?s = Inl NoSpaceBelowChord"
    using horizontal_bars_chord[OF v] t by simp
  then show ?thesis using v g by (simp add: generate_window_doc_def)
qed

text \<open>
  Claim C7, amended. Generation returns a document exactly when the six checks of lines
  70 to 81 pass and, in \<open>from_chord\<close> mode with a positive arch height and at least one
  horizontal bar, \<open>T > 0\<close> and \<open>g \<ge> -1e-9\<close>. A failed check of lines 70 to 81 is
  the error of the whole call, whatever the bar layout would do, and every error names a
  constraint that the spec violates.
\<close>

theorem generation_succeeds_iff:
  "((\<exists>doc. generate_window_doc spec = Inr doc) \<longleftrightarrow>
      0 < width_mm spec \<and> 0 < height_mm spec
      \<and> 0 \<le> frame_width_mm spec
      \<and> 2 * frame_width_mm spec < min (width_mm spec) (height_mm spec)
      \<and> 0 \<le> arch_height_mm spec \<and> arch_height_mm spec \<le> height_mm spec
      \<and> 0 \<le> num_vertical_bars spec \<and> 0 \<le> num_horizontal_bars spec
      \<and> 0 \<le> sash_bar_width_mm spec \<and> 0 \<le> CWB spec
      \<and> (horizontal_distribution_mode spec = ''even''
           \<or> horizontal_distribution_mode spec = ''from_chord'')
      \<and> \<not> (horizontal_distribution_mode spec = ''from_chord'' \<and> 0 < arch_height_mm spec
             \<and> 0 < num_horizontal_bars spec
             \<and> (T_span spec \<le> 0 \<or> g_raw spec < - (1 / 1000000000))))
   \<and> (validate spec = Some e \<longrightarrow> generate_window_doc spec = Inl e)
   \<and> (generate_window_doc spec = Inl e \<longrightarrow>
        (e = InvalidDimensions \<and> (width_mm spec \<le> 0 \<or> height_mm spec \<le> 0))
      \<or> (e = InvalidFrameWidth \<and> (frame_width_mm spec < 0
             \<or> min (width_mm spec) (height_mm spec) \<le> 2 * frame_width_mm spec))
      \<or> (e = InvalidArchHeight
            \<and> (arch_height_mm spec < 0 \<or> height_mm spec < arch_height_mm spec))
      \<or> (e = InvalidBarCount
            \<and> (num_vertical_bars spec < 0 \<or> num_horizontal_bars spec < 0))
      \<or> (e = InvalidBarWidth \<and> (sash_bar_width_mm spec < 0 \<or> CWB spec < 0))
      \<or> (e = InvalidMode \<and> horizontal_distribution_mode spec \<noteq> ''even''
            \<and> horizontal_distribution_mode spec \<noteq> ''from_chord'')
      \<or> (e = NoSpaceBelowChord \<and> validate spec = None \<and> T_span spec \<le> 0)
      \<or> (e = InsufficientSpace \<and> validate spec = None \<and> 0 < T_span spec
            \<and> g_raw spec < - (1 / 1000000000)))"
proof (intro conjI)
  have "(\<exists>doc. generate_window_doc spec = Inr doc)
          \<longleftrightarrow> validate spec = None \<and> \<not> isl (horizontal_bars spec)"
    by (cases "horizontal_bars spec") (auto simp: generate_window_doc_Inr)
  also have "\<dots> \<longleftrightarrow> validate spec = None
      \<and> \<not> (horizontal_distribution_mode spec = ''from_chord'' \<and> 0 < arch_height_mm spec
             \<and> 0 < num_horizontal_bars spec
             \<and> (T_span spec \<le> 0 \<or> g_raw spec < - (1 / 1000000000)))"
    using validate_inner_h[of spec] by (auto simp: horizontal_bars_isl)
  finally show "(\<exists>doc. generate_window_doc spec = Inr doc) \<longleftrightarrow>
      0 < width_mm spec \<and> 0 < height_mm spec
      \<and> 0 \<le> frame_width_mm spec
      \<and> 2 * frame_width_mm spec < min (width_mm spec) (height_mm spec)
      \<and> 0 \<le> arch_height_mm spec \<and> arch_height_mm spec \<le> height_mm spec
      \<and> 0 \<le> num_vertical_bars spec \<and> 0 \<le> num_horizontal_bars spec
      \<and> 0 \<le> sash_bar_width_mm spec \<and> 0 \<le> CWB spec
      \<and> (horizontal_distribution_mode spec = ''even''
           \<or> horizontal_distribution_mode spec = ''from_chord'')
      \<and> \<not> (horizontal_distribution_mode spec = ''from_chord'' \<and> 0 < arch_height_mm spec
             \<and> 0 < num_horizontal_bars spec
             \<and> (T_span spec \<le> 0 \<or> g_raw spec < - (1 / 1000000000)))"
    unfolding validate_None_iff by blast
next
  show "validate spec = Some e \<longrightarrow> generate_window_doc spec = Inl e"
    by (simp add: generate_window_doc_def)
next
  show "generate_window_doc spec = Inl e \<longrightarrow>
        (e = InvalidDimensions \<and> (width_mm spec \<le> 0 \<or> height_mm spec \<le> 0))
      \<or> (e = InvalidFrameWidth \<and> (frame_width_mm spec < 0
             \<or> min (width_mm spec) (height_mm spec) \<le> 2 * frame_width_mm spec))
      \<or> (e = InvalidArchHeight
            \<and> (arch_height_mm spec < 0 \<or> height_mm spec < arch_height_mm spec))
      \<or> (e = InvalidBarCount
            \<and> (num_vertical_bars spec < 0 \<or> num_horizontal_bars spec < 0))
      \<or> (e = InvalidBarWidth \<and> (sash_bar_width_mm spec < 0 \<or> CWB spec < 0))
      \<or> (e = InvalidMode \<and> horizontal_distribution_mode spec \<noteq> ''even''
            \<and> horizontal_distribution_mode spec \<noteq> ''from_chord'')
      \<or> (e = NoSpaceBelowChord \<and> validate spec = None \<and> T_span spec \<le> 0)
      \<or> (e = InsufficientSpace \<and> validate spec = None \<and> 0 < T_span spec
            \<and> g_raw spec < - (1 / 1000000000))"
  proof
    assume "generate_window_doc spec = Inl e"
    then consider "validate spec = Some e"
      | "validate spec = None" "horizontal_bars spec = Inl e"
      by (auto simp: generate_window_doc_Inl)
    then show "(e = InvalidDimensions \<and> (width_mm spec \<le> 0 \<or> height_mm spec \<le> 0))
      \<or> (e = InvalidFrameWidth \<and> (frame_width_mm spec < 0
             \<or> min (width_mm spec) (height_mm spec) \<le> 2 * frame_width_mm spec))
      \<or> (e = InvalidArchHeight
            \<and> (arch_height_mm spec < 0 \<or> height_mm spec < arch_height_mm spec))
      \<or> (e = InvalidBarCount
            \<and> (num_vertical_bars spec < 0 \<or> num_horizontal_bars spec < 0))
      \<or> (e = InvalidBarWidth \<and> (sash_bar_width_mm spec < 0 \<or> CWB spec < 0))
      \<or> (e = InvalidMode \<and> horizontal_distribution_mode spec \<noteq> ''even''
            \<and> horizontal_distribution_mode spec \<noteq> ''from_chord'')
      \<or> (e = NoSpaceBelowChord \<and> validate spec = None \<and> T_span spec \<le> 0)
      \<or> (e = InsufficientSpace \<and> validate spec = None \<and> 0 < T_span spec
            \<and> g_raw spec < - (1 / 1000000000))"
    proof cases
      case 1
      from validate_Some[OF 1] show ?thesis by blast
    next
      case 2
      from horizontal_bars_Inl[OF 2(2)] 2(1) show ?thesis by blast
    qed
  qed
qed

theorem generation_succeeds_iff_witness:
  "0 < width_mm (window_spec 1000 1400 70 3 4 35 250 (Some 60) ''from_chord'')
   \<and> validate (window_spec 1000 1400 70 3 4 35 250 (Some 60) ''from_chord'') = None
   \<and> 0 < T_span (window_spec 1000 1400 70 3 4 35 250 (Some 60) ''from_chord'')
   \<and> 0 \<le> g_raw (window_spec 1000 1400 70 3 4 35 250 (Some 60) ''from_chord'')
   \<and> \<not> isl (generate_window_doc (window_spec 1000 1400 70 3 4 35 250 (Some 60) ''from_chord''))
   \<and> validate (window_spec 100 100 50 0 0 5 0 None ''even'') = Some InvalidFrameWidth
   \<and> generate_window_doc (window_spec 100 100 50 0 0 5 0 None ''even'')
        = Inl InvalidFrameWidth"
proof -
  let ?s = "window_spec 1000 1400 70 3 4 35 250 (Some 60) ''from_chord''"
  let ?b = "window_spec 100 100 50 0 0 5 0 None ''even''"
  have v: "validate ?s = None" by (simp add: validate_def CWB_def)
  have t: "T_span ?s = 1010" by (simp add: geom_defs)
  have g: "g_raw ?s = 174" by (simp add: geom_defs)
  have c: "CWB ?s = 60" by (simp add: CWB_def)
  have "\<exists>doc. generate_window_doc ?s = Inr doc"
    using generation_succeeds_iff [of ?s] t g c by simp
  then have ok: "\<not> isl (generate_window_doc ?s)" by auto
  have b: "validate ?b = Some InvalidFrameWidth" by (simp add: validate_def)
  have "generate_window_doc ?b = Inl InvalidFrameWidth"
    using generation_succeeds_iff [of ?b InvalidFrameWidth] b by blast
  then show ?thesis using v t g ok b by simp
qed

section \<open>The example windows\<close>

lemma rect_example_generates: "generate_window_doc rect_example = Inr rect_example_doc"
proof -
  have c: "CWB rect_example = 8" by (simp add: CWB_def)
  have v: "validate rect_example = None" by (simp add: validate_def c)
  have h: "horizontal_bars rect_example = Inr [Rect Lit0 (Flt 47) 100 6]"
    by (simp add: horizontal_bars_def inner_h_def inner_y_def even_bar_def Let_def upto.simps)
  have vb: "vertical_bars rect_example
      = [Rect (Flt 27) Lit0 6 100, Rect (Flt 46) Lit0 8 100, Rect (Flt 67) Lit0 6 100]"
    by (simp add: vertical_bars_def vertical_bar_def Let_def c inner_x_def inner_w_def upto.simps)
  show ?thesis
    by (simp add: generate_window_doc_def v h vb clip_shape_def glass_def frame_path_def
        inner_x_def inner_y_def inner_w_def inner_h_def)
qed

lemma arch_example_generates: "generate_window_doc arch_example = Inr arch_example_doc"
proof -
  have v: "validate arch_example = None" by (simp add: validate_def CWB_def)
  have t: "T_span arch_example = 60" by (simp add: geom_defs)
  have g: "g_raw arch_example = 16" by (simp add: geom_defs)
  have s: "start_y arch_example = 30" by (simp add: geom_defs)
  have h: "horizontal_bars arch_example
      = Inr [Rect Lit0 (Flt 20) 100 10, Rect Lit0 (Flt 46) 100 6, Rect Lit0 (Flt 68) 100 6]"
    unfolding horizontal_bars_def
    by (simp add: t g s inner_h_def chord_bar_def chord_y_def inner_y_def arch_inner_def
        lower_bar_def Let_def upto.simps)
  have vb: "vertical_bars arch_example = []" by (simp add: vertical_bars_def)
  show ?thesis
    by (simp add: generate_window_doc_def v h vb clip_shape_def glass_def frame_path_def)
qed

lemma rect_example_rects:
  "vertical_rects rect_example_doc
     = [Rect (Flt 27) Lit0 6 100, Rect (Flt 46) Lit0 8 100, Rect (Flt 67) Lit0 6 100]"
  "horizontal_rects rect_example_doc = [Rect Lit0 (Flt 47) 100 6]"
  by (simp_all add: vertical_rects_def horizontal_rects_def emitted_bars_def)

lemma arch_example_rects:
  "vertical_rects arch_example_doc = []"
  "horizontal_rects arch_example_doc
     = [Rect Lit0 (Flt 20) 100 10, Rect Lit0 (Flt 46) 100 6, Rect Lit0 (Flt 68) 100 6]"
  by (simp_all add: vertical_rects_def horizontal_rects_def emitted_bars_def)

section \<open>The centre bar width\<close>

text \<open>
  Claim C2, evaluated on the code. Line 68 tests the truth value of the field, so a
  supplied width of zero is treated like an absent one: for a 100 by 100 window, frame 10,
  one vertical bar, bar width 5 and centre width 0, the resolved centre width is 5 and
  the single, middle bar is emitted 5 wide.
\<close>

theorem center_width_zero_defaulted:
  "center_vertical_bar_width_mm (window_spec 100 100 10 1 0 5 0 (Some 0) ''even'') = Some 0
   \<and> CWB (window_spec 100 100 10 1 0 5 0 (Some 0) ''even'') = 5
   \<and> generate_window_doc (window_spec 100 100 10 1 0 5 0 (Some 0) ''even'')
      = Inr [XmlDecl, SvgOpen 100 100, DefsOpen, ClipPathOpen, ClipShapeRect 10 10 80 80,
             ClipPathClose, DefsClose, GlassRect 10 10 80 80 ''#e6f2ff'',
             FramePath (compound_frame_path_rect 100 100 10) ''#c7c7c7'', GroupOpen,
             BarRect (Rect (Flt (95 / 2)) Lit0 5 100) ''#c7c7c7'',
             GroupClose, SvgClose]"
proof -
  let ?s = "window_spec 100 100 10 1 0 5 0 (Some 0) ''even''"
  have c: "CWB ?s = 5" by (simp add: CWB_def)
  have v: "validate ?s = None" by (simp add: validate_def c)
  have h: "horizontal_bars ?s = Inr []" by (simp add: horizontal_bars_def inner_h_def)
  have u: "[0..num_vertical_bars ?s - 1] = [0]" by (simp add: upto.simps)
  have b: "vertical_bar ?s 0 = Rect (Flt (95 / 2)) Lit0 5 100"
    by (simp add: vertical_bar_def Let_def c inner_x_def inner_w_def)
  have vb: "vertical_bars ?s = [Rect (Flt (95 / 2)) Lit0 5 100]"
    unfolding vertical_bars_def u by (simp add: inner_w_def b)
  show ?thesis
    by (simp add: generate_window_doc_def v h vb c clip_shape_def glass_def frame_path_def
        inner_x_def inner_y_def inner_w_def inner_h_def)
qed

section \<open>Vertical bars\<close>

lemma vertical_bars_eq:
  "validate spec = None \<Longrightarrow> 0 < num_vertical_bars spec \<Longrightarrow>
     vertical_bars spec = map (vertical_bar spec) [0..num_vertical_bars spec - 1]"
  by (simp add: vertical_bars_def validate_inner_w)

text \<open>
  Claim C5. When generation succeeds and \<open>N = num_vertical_bars > 0\<close>, the document
  holds exactly \<open>N\<close> vertical bars; the \<open>k\<close>-th, for \<open>k = 1..N\<close>, starts at \<open>y = 0\<close>,
  has the full height, is centred at \<open>inner_x + k * (inner_w / (N + 1))\<close>, and is
  \<open>sash_bar_width\<close> wide, except that for odd \<open>N\<close> the bar with index \<open>N div 2\<close> (counted
  from zero) has the width that line 68 resolved.
\<close>

theorem vertical_bars_layout:
  assumes "generate_window_doc spec = Inr doc" "0 < num_vertical_bars spec"
  shows "length (vertical_rects doc) = nat (num_vertical_bars spec)
     \<and> (\<forall>k. 1 \<le> k \<and> k \<le> num_vertical_bars spec \<longrightarrow>
          rect_y (vertical_rects doc ! nat (k - 1)) = Lit0
        \<and> rect_h (vertical_rects doc ! nat (k - 1)) = height_mm spec
        \<and> val (rect_x (vertical_rects doc ! nat (k - 1)))
            + rect_w (vertical_rects doc ! nat (k - 1)) / 2
          = inner_x spec
            + real_of_int k * (inner_w spec / real_of_int (num_vertical_bars spec + 1))
        \<and> rect_w (vertical_rects doc ! nat (k - 1))
          = (if num_vertical_bars spec mod 2 = 1 \<and> k - 1 = num_vertical_bars spec div 2
             then CWB spec else sash_bar_width_mm spec))"
proof -
  from assms(1) have v: "validate spec = None" by (simp add: generate_window_doc_Inr)
  have vr: "vertical_rects doc = map (vertical_bar spec) [0..num_vertical_bars spec - 1]"
    using rects_doc[OF assms(1)] vertical_bars_eq[OF v assms(2)] by simp
  have len: "length (vertical_rects doc) = nat (num_vertical_bars spec)"
    by (simp add: vr)
  have nth: "vertical_rects doc ! nat (k - 1) = vertical_bar spec (k - 1)"
    if "1 \<le> k" "k \<le> num_vertical_bars spec" for k
    using that by (simp add: vr)
  show ?thesis
    using len by (auto simp: nth vertical_bar_def Let_def)
qed

theorem vertical_bars_layout_witness:
  "generate_window_doc rect_example = Inr rect_example_doc
   \<and> 0 < num_vertical_bars rect_example
   \<and> length (vertical_rects rect_example_doc) = 3
   \<and> rect_w (vertical_rects rect_example_doc ! 0) = 6
   \<and> rect_w (vertical_rects rect_example_doc ! 1) = 8
   \<and> val (rect_x (vertical_rects rect_example_doc ! 1)) + 8 / 2 = 10 + 2 * (80 / 4)"
proof -
  have n: "0 < num_vertical_bars rect_example" by simp
  note t = vertical_bars_layout [OF rect_example_generates n]
  from t have "length (vertical_rects rect_example_doc) = 3" by simp
  moreover have "rect_w (vertical_rects rect_example_doc ! nat (1 - 1)) = 6"
    using t [THEN conjunct2, rule_format, of 1] by simp
  moreover have "rect_w (vertical_rects rect_example_doc ! nat (2 - 1)) = 8"
    using t [THEN conjunct2, rule_format, of 2] by (simp add: CWB_def)
  ultimately show ?thesis
    using rect_example_generates by (simp add: rect_example_rects)
qed

section \<open>The chord bar\<close>

lemma horizontal_bars_chord_none:
  assumes "validate spec = None" "horizontal_distribution_mode spec = ''from_chord''"
    "0 < arch_height_mm spec" "\<not> 0 < num_horizontal_bars spec"
  shows "horizontal_bars spec = Inr [chord_bar spec]"
  using assms validate_inner_h[OF assms(1)] by (simp add: horizontal_bars_def)

lemma horizontal_bars_even:
  assumes "validate spec = None"
    "\<not> (horizontal_distribution_mode spec = ''from_chord'' \<and> 0 < arch_height_mm spec)"
  shows "horizontal_bars spec = Inr (map (even_bar spec) [0..num_horizontal_bars spec - 1])"
  using assms validate_inner_h[OF assms(1)] by (auto simp: horizontal_bars_def)

lemma g_raw_pos_of_zero_widths:
  assumes "0 < T_span spec" "0 < num_horizontal_bars spec" "sash_bar_width_mm spec = 0"
  shows "0 < g_raw spec"
  using assms by (simp add: g_raw_def)

lemma lower_bar_not_chord:
  assumes v: "validate spec = None" and n: "0 < num_horizontal_bars spec"
    and t: "0 < T_span spec" and k: "0 \<le> k"
  shows "chord_bar spec \<noteq> lower_bar spec k"
proof
  assume eq: "chord_bar spec = lower_bar spec k"
  from v have fw: "0 \<le> frame_width_mm spec" and bw: "0 \<le> sash_bar_width_mm spec"
    by (simp_all add: validate_None_iff)
  let ?g = "max (g_raw spec) 0"
  from eq have y: "start_y spec + ?g + real_of_int k * (sash_bar_width_mm spec + ?g) = chord_y spec"
    and w: "sash_bar_width_mm spec = frame_width_mm spec"
    by (auto simp add: lower_bar_def chord_bar_def Let_def)
  have "0 \<le> real_of_int k * (sash_bar_width_mm spec + ?g)"
    using k bw by simp
  with y fw have "frame_width_mm spec + ?g \<le> 0" by (simp add: start_y_def)
  with fw have "frame_width_mm spec = 0" "?g = 0" by simp_all
  with w have "sash_bar_width_mm spec = 0" by simp
  from g_raw_pos_of_zero_widths[OF t n this] \<open>?g = 0\<close> show False by simp
qed

text \<open>
  Claim C4. When generation succeeds in \<open>from_chord\<close> mode with a positive arch height,
  the horizontal bars of the document are the chord bar followed by
  \<open>num_horizontal_bars\<close> further bars, none of which is the chord bar again. The chord
  bar starts at \<open>x = 0\<close>, is as wide as the window, has its top edge at
  \<open>inner_y + max 0 (arch_height - frame_width)\<close> and is \<open>frame_width\<close> high.
\<close>

theorem chord_bar_emitted:
  assumes "generate_window_doc spec = Inr doc"
    "horizontal_distribution_mode spec = ''from_chord''" "0 < arch_height_mm spec"
  shows "\<exists>lower.
      horizontal_rects doc
        = Rect Lit0 (Flt (inner_y spec + max 0 (arch_height_mm spec - frame_width_mm spec)))
            (width_mm spec) (frame_width_mm spec) # lower
    \<and> length lower = nat (num_horizontal_bars spec)
    \<and> Rect Lit0 (Flt (inner_y spec + max 0 (arch_height_mm spec - frame_width_mm spec)))
            (width_mm spec) (frame_width_mm spec) \<notin> set lower"
proof -
  from assms(1) have v: "validate spec = None" by (simp add: generate_window_doc_Inr)
  from rects_doc[OF assms(1)] have h: "horizontal_bars spec = Inr (horizontal_rects doc)"
    by simp
  have c: "chord_bar spec
      = Rect Lit0 (Flt (inner_y spec + max 0 (arch_height_mm spec - frame_width_mm spec)))
          (width_mm spec) (frame_width_mm spec)"
    by (simp add: chord_bar_def chord_y_def arch_inner_def)
  show ?thesis
  proof (cases "0 < num_horizontal_bars spec")
    case True
    from h horizontal_bars_chord[OF v assms(2,3) True]
    have t: "0 < T_span spec"
      and hr: "horizontal_rects doc
           = chord_bar spec # map (lower_bar spec) [0..num_horizontal_bars spec - 1]"
      by (auto split: if_splits)
    have "chord_bar spec \<notin> set (map (lower_bar spec) [0..num_horizontal_bars spec - 1])"
    proof
      assume "chord_bar spec \<in> set (map (lower_bar spec) [0..num_horizontal_bars spec - 1])"
      then obtain k where "0 \<le> k" "chord_bar spec = lower_bar spec k" by auto
      with lower_bar_not_chord[OF v True t] show False by blast
    qed
    then show ?thesis using hr True unfolding c by auto
  next
    case False
    from h horizontal_bars_chord_none[OF v assms(2,3) False]
    have "horizontal_rects doc = [chord_bar spec]" by simp
    then show ?thesis using False unfolding c by simp
  qed
qed

theorem chord_bar_emitted_witness:
  "generate_window_doc arch_example = Inr arch_example_doc
   \<and> horizontal_distribution_mode arch_example = ''from_chord''
   \<and> 0 < arch_height_mm arch_example
   \<and> hd (horizontal_rects arch_example_doc) = Rect Lit0 (Flt (10 + max 0 (20 - 10))) 100 10
   \<and> length (tl (horizontal_rects arch_example_doc)) = 2"
proof -
  from chord_bar_emitted [OF arch_example_generates]
  obtain lower where "horizontal_rects arch_example_doc
        = Rect Lit0 (Flt (inner_y arch_example
            + max 0 (arch_height_mm arch_example - frame_width_mm arch_example)))
            (width_mm arch_example) (frame_width_mm arch_example) # lower"
    and "length lower = nat (num_horizontal_bars arch_example)"
    by auto
  then show ?thesis using arch_example_generates by (simp add: inner_y_def)
qed

section \<open>Horizontal bars and the aperture\<close>

lemma span_identity:
  assumes "0 \<le> num_horizontal_bars spec"
  shows "real_of_int (num_horizontal_bars spec + 1) * g_raw spec
           + real_of_int (num_horizontal_bars spec) * sash_bar_width_mm spec = T_span spec"
proof -
  have "real_of_int (num_horizontal_bars spec + 1) \<noteq> 0" using assms by simp
  then show ?thesis by (simp add: g_raw_def)
qed

lemma even_bars_within:
  assumes v: "validate spec = None" and n: "0 < num_horizontal_bars spec"
  shows "(\<forall>j \<in> {0..num_horizontal_bars spec - 1}. bar_within spec (even_bar spec j))
     \<longleftrightarrow> sash_bar_width_mm spec
           \<le> 2 * (inner_h spec / real_of_int (num_horizontal_bars spec + 1))"
proof -
  define N where "N = num_horizontal_bars spec"
  define y where "y = inner_h spec / real_of_int (N + 1)"
  define B where "B = sash_bar_width_mm spec"
  have N: "0 < N" using n by (simp add: N_def)
  have ypos: "0 < y" using validate_inner_h[OF v] N by (simp add: y_def)
  have ih: "inner_h spec = real_of_int (N + 1) * y" using N by (simp add: y_def)
  have w: "bar_within spec (even_bar spec j)
      \<longleftrightarrow> B / 2 \<le> real_of_int (j + 1) * y \<and> real_of_int (j + 1) * y + B / 2 \<le> real_of_int (N + 1) * y" for j
    unfolding bar_within_def even_bar_def Let_def ih
    by (auto simp: y_def N_def B_def)
  show ?thesis
  proof
    assume "\<forall>j \<in> {0..num_horizontal_bars spec - 1}. bar_within spec (even_bar spec j)"
    then have "bar_within spec (even_bar spec 0)" using n by simp
    then have "B / 2 \<le> y" unfolding w by simp
    then show "sash_bar_width_mm spec
           \<le> 2 * (inner_h spec / real_of_int (num_horizontal_bars spec + 1))"
      unfolding B_def y_def N_def by linarith
  next
    assume "sash_bar_width_mm spec
           \<le> 2 * (inner_h spec / real_of_int (num_horizontal_bars spec + 1))"
    then have b: "B / 2 \<le> y" unfolding B_def y_def N_def by linarith
    show "\<forall>j \<in> {0..num_horizontal_bars spec - 1}. bar_within spec (even_bar spec j)"
    proof
      fix j assume "j \<in> {0..num_horizontal_bars spec - 1}"
      then have j: "0 \<le> j" "j \<le> N - 1" by (simp_all add: N_def)
      have a: "0 \<le> real_of_int j * y" using j ypos by simp
      have c: "0 \<le> real_of_int (N - 1 - j) * y" using j ypos by simp
      have "B / 2 \<le> real_of_int (j + 1) * y"
        using a b by (simp add: algebra_simps)
      moreover have "real_of_int (j + 1) * y + B / 2 \<le> real_of_int (N + 1) * y"
        using c b by (simp add: algebra_simps)
      ultimately show "bar_within spec (even_bar spec j)" unfolding w by simp
    qed
  qed
qed

lemma chord_bar_within:
  assumes v: "validate spec = None"
  shows "bar_within spec (chord_bar spec) \<longleftrightarrow> 0 \<le> T_span spec"
  by (auto simp: bar_within_def chord_bar_def T_span_def bottom_y_def start_y_def chord_y_def
      arch_inner_def)

lemma lower_bars_within:
  assumes v: "validate spec = None" and n: "0 < num_horizontal_bars spec"
    and t: "0 < T_span spec"
  shows "(\<forall>k \<in> {0..num_horizontal_bars spec - 1}. bar_within spec (lower_bar spec k))
     \<longleftrightarrow> 0 \<le> g_raw spec"
proof -
  define N where "N = num_horizontal_bars spec"
  define B where "B = sash_bar_width_mm spec"
  define g where "g = g_raw spec"
  define T where "T = T_span spec"
  have N: "0 < N" using n by (simp add: N_def)
  from v have B: "0 \<le> B" and fw: "0 \<le> frame_width_mm spec"
    by (simp_all add: validate_None_iff B_def)
  have T: "T = real_of_int (N + 1) * g + real_of_int N * B"
    using span_identity[of spec] n by (simp add: T_def N_def g_def B_def)
  have s: "inner_y spec \<le> start_y spec"
    using fw by (simp add: start_y_def chord_y_def arch_inner_def)
  have w: "bar_within spec (lower_bar spec k)
      \<longleftrightarrow> inner_y spec \<le> start_y spec + max g 0 + real_of_int k * (B + max g 0)
        \<and> max g 0 + real_of_int k * (B + max g 0) + B \<le> T" for k
    unfolding bar_within_def lower_bar_def Let_def
    by (auto simp: T_def T_span_def bottom_y_def g_def B_def)
  show ?thesis
  proof
    assume "\<forall>k \<in> {0..num_horizontal_bars spec - 1}. bar_within spec (lower_bar spec k)"
    then have "bar_within spec (lower_bar spec (N - 1))" using N by (simp add: N_def)
    then have le: "max g 0 + real_of_int (N - 1) * (B + max g 0) + B \<le> T" unfolding w by simp
    show "0 \<le> g_raw spec"
    proof (rule ccontr)
      assume "\<not> 0 \<le> g_raw spec"
      then have neg: "g < 0" by (simp add: g_def)
      then have "max g 0 = 0" by simp
      with le have "real_of_int N * B \<le> T" by (simp add: algebra_simps)
      then have "0 \<le> real_of_int (N + 1) * g" unfolding T by simp
      moreover have "real_of_int (N + 1) * g < 0"
        using neg N by (simp add: mult_pos_neg)
      ultimately show False by simp
    qed
  next
    assume "0 \<le> g_raw spec"
    then have g: "0 \<le> g" "max g 0 = g" by (simp_all add: g_def)
    show "\<forall>k \<in> {0..num_horizontal_bars spec - 1}. bar_within spec (lower_bar spec k)"
    proof
      fix k assume "k \<in> {0..num_horizontal_bars spec - 1}"
      then have k: "0 \<le> k" "k \<le> N - 1" by (simp_all add: N_def)
      have a: "0 \<le> real_of_int k * (B + g)" using k B g by simp
      have c: "0 \<le> real_of_int (N - 1 - k) * (B + g)" using k B g by simp
      have "inner_y spec \<le> start_y spec + g + real_of_int k * (B + g)"
        using s a g by simp
      moreover have "g + real_of_int k * (B + g) + B \<le> T"
        unfolding T using c g by (simp add: algebra_simps)
      ultimately show "bar_within spec (lower_bar spec k)" unfolding w g by simp
    qed
  qed
qed

text \<open>
  Claim C3, as stated, fails: nothing in the generator compares a bar with the aperture.
  A 100 by 100 window with frame 10 and one horizontal bar of width 100 in \<open>even\<close> mode
  passes validation, and its bar runs from \<open>y = 0\<close> to \<open>y = 100\<close> while the aperture
  runs from 10 to 90.
\<close>

theorem bars_outside_counterexample:
  "validate (window_spec 100 100 10 0 1 100 0 None ''even'') = None
   \<and> generate_window_doc (window_spec 100 100 10 0 1 100 0 None ''even'')
      = Inr [XmlDecl, SvgOpen 100 100, DefsOpen, ClipPathOpen, ClipShapeRect 10 10 80 80,
             ClipPathClose, DefsClose, GlassRect 10 10 80 80 ''#e6f2ff'',
             FramePath (compound_frame_path_rect 100 100 10) ''#c7c7c7'', GroupOpen,
             BarRect (Rect Lit0 (Flt 0) 100 100) ''#c7c7c7'',
             GroupClose, SvgClose]
   \<and> inner_y (window_spec 100 100 10 0 1 100 0 None ''even'') = 10
   \<and> inner_h (window_spec 100 100 10 0 1 100 0 None ''even'') = 80
   \<and> \<not> bar_within (window_spec 100 100 10 0 1 100 0 None ''even'')
         (Rect Lit0 (Flt 0) 100 100)"
proof -
  let ?s = "window_spec 100 100 10 0 1 100 0 None ''even''"
  have v: "validate ?s = None" by (simp add: validate_def CWB_def)
  have h: "horizontal_bars ?s = Inr [Rect Lit0 (Flt 0) 100 100]"
    by (simp add: horizontal_bars_def inner_h_def inner_y_def even_bar_def Let_def upto.simps)
  have vb: "vertical_bars ?s = []" by (simp add: vertical_bars_def)
  show ?thesis
    by (simp add: generate_window_doc_def v h vb clip_shape_def glass_def frame_path_def
        inner_x_def inner_y_def inner_w_def inner_h_def bar_within_def)
qed

text \<open>
  Claim C3, amended. When generation succeeds, all horizontal bars of the document lie
  within \<open>[inner_y, inner_y + inner_h]\<close> exactly when: in \<open>from_chord\<close> mode with a
  positive arch height, the gap \<open>g\<close> is not negative (or, without bars below the chord
  bar, the span \<open>T\<close> is not negative); in every other case, there is no horizontal bar or
  \<open>sash_bar_width \<le> 2 * (inner_h / (N + 1))\<close>.
\<close>

theorem horizontal_bars_within_iff:
  assumes "generate_window_doc spec = Inr doc"
  shows "(\<forall>r \<in> set (horizontal_rects doc). bar_within spec r) \<longleftrightarrow>
     (if horizontal_distribution_mode spec = ''from_chord'' \<and> 0 < arch_height_mm spec
      then (if 0 < num_horizontal_bars spec then 0 \<le> g_raw spec else 0 \<le> T_span spec)
      else (0 < num_horizontal_bars spec \<longrightarrow>
              sash_bar_width_mm spec
                \<le> 2 * (inner_h spec / real_of_int (num_horizontal_bars spec + 1))))"
proof -
  from assms have v: "validate spec = None" by (simp add: generate_window_doc_Inr)
  from rects_doc[OF assms] have h: "horizontal_bars spec = Inr (horizontal_rects doc)"
    by simp
  consider (chord) "horizontal_distribution_mode spec = ''from_chord''" "0 < arch_height_mm spec"
      "0 < num_horizontal_bars spec"
    | (only) "horizontal_distribution_mode spec = ''from_chord''" "0 < arch_height_mm spec"
      "\<not> 0 < num_horizontal_bars spec"
    | (even) "\<not> (horizontal_distribution_mode spec = ''from_chord'' \<and> 0 < arch_height_mm spec)"
    by blast
  then show ?thesis
  proof cases
    case chord
    from h horizontal_bars_chord[OF v chord]
    have t: "0 < T_span spec"
      and hr: "horizontal_rects doc
           = chord_bar spec # map (lower_bar spec) [0..num_horizontal_bars spec - 1]"
      by (auto split: if_splits)
    have "(\<forall>r \<in> set (horizontal_rects doc). bar_within spec r)
        \<longleftrightarrow> bar_within spec (chord_bar spec)
          \<and> (\<forall>k \<in> {0..num_horizontal_bars spec - 1}. bar_within spec (lower_bar spec k))"
      unfolding hr by simp
    also have "\<dots> \<longleftrightarrow> 0 \<le> g_raw spec"
      using t by (simp add: chord_bar_within[OF v] lower_bars_within[OF v chord(3) t])
    finally show ?thesis using chord by simp
  next
    case only
    from h horizontal_bars_chord_none[OF v only]
    have "horizontal_rects doc = [chord_bar spec]" by simp
    then show ?thesis using only by (simp add: chord_bar_within[OF v])
  next
    case even
    then have ne: "(horizontal_distribution_mode spec = ''from_chord'' \<and> 0 < arch_height_mm spec)
        = False" by simp
    from h horizontal_bars_even[OF v even]
    have hr: "horizontal_rects doc = map (even_bar spec) [0..num_horizontal_bars spec - 1]"
      by simp
    show ?thesis
    proof (cases "0 < num_horizontal_bars spec")
      case True
      have "(\<forall>r \<in> set (horizontal_rects doc). bar_within spec r)
        \<longleftrightarrow> (\<forall>j \<in> {0..num_horizontal_bars spec - 1}. bar_within spec (even_bar spec j))"
        unfolding hr by simp
      then show ?thesis unfolding ne using True by (simp add: even_bars_within[OF v True])
    next
      case False
      then have "horizontal_rects doc = []" unfolding hr by simp
      then show ?thesis unfolding ne using False by simp
    qed
  qed
qed

theorem horizontal_bars_within_iff_witness:
  "generate_window_doc arch_example = Inr arch_example_doc
   \<and> 0 \<le> g_raw arch_example
   \<and> bar_within arch_example (Rect Lit0 (Flt 20) 100 10)
   \<and> bar_within arch_example (Rect Lit0 (Flt 46) 100 6)
   \<and> bar_within arch_example (Rect Lit0 (Flt 68) 100 6)"
proof -
  have g: "g_raw arch_example = 16" by (simp add: geom_defs)
  from horizontal_bars_within_iff [OF arch_example_generates] g
  have "\<forall>r \<in> set (horizontal_rects arch_example_doc). bar_within arch_example r" by simp
  then show ?thesis using arch_example_generates g by (simp add: arch_example_rects)
qed

section \<open>A window without an arch\<close>

lemma mode_irrelevant_aperture [simp]:
  "inner_x (spec\<lparr>horizontal_distribution_mode := m\<rparr>) = inner_x spec"
  "inner_y (spec\<lparr>horizontal_distribution_mode := m\<rparr>) = inner_y spec"
  "inner_w (spec\<lparr>horizontal_distribution_mode := m\<rparr>) = inner_w spec"
  "inner_h (spec\<lparr>horizontal_distribution_mode := m\<rparr>) = inner_h spec"
  "CWB (spec\<lparr>horizontal_distribution_mode := m\<rparr>) = CWB spec"
  by (simp_all add: inner_x_def inner_y_def inner_w_def inner_h_def CWB_def
      split: option.splits)

lemma mode_irrelevant_bar [simp]:
  "vertical_bar (spec\<lparr>horizontal_distribution_mode := m\<rparr>) = vertical_bar spec"
  "even_bar (spec\<lparr>horizontal_distribution_mode := m\<rparr>) = even_bar spec"
  by (simp_all add: vertical_bar_def even_bar_def Let_def fun_eq_iff)

lemma mode_irrelevant_parts [simp]:
  "vertical_bars (spec\<lparr>horizontal_distribution_mode := m\<rparr>) = vertical_bars spec"
  "clip_shape (spec\<lparr>horizontal_distribution_mode := m\<rparr>) = clip_shape spec"
  "glass (spec\<lparr>horizontal_distribution_mode := m\<rparr>) = glass spec"
  "frame_path (spec\<lparr>horizontal_distribution_mode := m\<rparr>) = frame_path spec"
  by (simp_all add: vertical_bars_def clip_shape_def glass_def frame_path_def)

lemma validate_mode:
  "validate (spec\<lparr>horizontal_distribution_mode := ''from_chord''\<rparr>)
     = validate (spec\<lparr>horizontal_distribution_mode := ''even''\<rparr>)"
  by (simp add: validate_def)

lemma horizontal_bars_no_arch:
  assumes "arch_height_mm spec = 0"
  shows "horizontal_bars (spec\<lparr>horizontal_distribution_mode := m\<rparr>)
     = (if 0 < inner_h spec \<and> 0 < num_horizontal_bars spec
        then Inr (map (even_bar spec) [0..num_horizontal_bars spec - 1]) else Inr [])"
  using assms by (simp add: horizontal_bars_def)

lemma arch_inner_extents:
  assumes "0 \<le> FW" "2 * FW < W" "2 * FW < H"
  shows "extents (path_arch_inner W H FW 0) = Some (FW, FW, W - 2 * FW, H - 2 * FW)"
  using assms by (simp add: extents_def path_arch_inner_def Let_def)

text \<open>
  Claim C8. With \<open>arch_height = 0\<close> the generator gives the same result in
  \<open>from_chord\<close> mode as in \<open>even\<close> mode. When it returns a document, the clip shape
  and the glass are the rectangle \<open>inner_w \<times> inner_h\<close> at \<open>(inner_x, inner_y)\<close>, the frame
  is the rectangular compound path, the inner arch path at rise zero has those same
  extents, and the horizontal bars are the \<open>num_horizontal_bars\<close> bars of the even
  layout, without a chord bar.
\<close>

theorem zero_arch_is_rectangle:
  assumes "arch_height_mm spec = 0"
  shows "generate_window_doc (spec\<lparr>horizontal_distribution_mode := ''from_chord''\<rparr>)
           = generate_window_doc (spec\<lparr>horizontal_distribution_mode := ''even''\<rparr>)
     \<and> (generate_window_doc spec = Inr doc \<longrightarrow>
           doc ! 4 = ClipShapeRect (inner_x spec) (inner_y spec) (inner_w spec) (inner_h spec)
         \<and> doc ! 7 = GlassRect (inner_x spec) (inner_y spec) (inner_w spec) (inner_h spec)
                        (glass_color spec)
         \<and> doc ! 8 = FramePath (compound_frame_path_rect (width_mm spec) (height_mm spec)
                                   (frame_width_mm spec)) (frame_color spec)
         \<and> extents (path_arch_inner (width_mm spec) (height_mm spec) (frame_width_mm spec) 0)
             = Some (inner_x spec, inner_y spec, inner_w spec, inner_h spec)
         \<and> horizontal_rects doc = map (even_bar spec) [0..num_horizontal_bars spec - 1]
         \<and> length (horizontal_rects doc) = nat (num_horizontal_bars spec))"
proof
  show "generate_window_doc (spec\<lparr>horizontal_distribution_mode := ''from_chord''\<rparr>)
           = generate_window_doc (spec\<lparr>horizontal_distribution_mode := ''even''\<rparr>)"
    unfolding generate_window_doc_def horizontal_bars_no_arch[OF assms]
    by (simp add: validate_mode split: option.splits)
next
  show "generate_window_doc spec = Inr doc \<longrightarrow>
           doc ! 4 = ClipShapeRect (inner_x spec) (inner_y spec) (inner_w spec) (inner_h spec)
         \<and> doc ! 7 = GlassRect (inner_x spec) (inner_y spec) (inner_w spec) (inner_h spec)
                        (glass_color spec)
         \<and> doc ! 8 = FramePath (compound_frame_path_rect (width_mm spec) (height_mm spec)
                                   (frame_width_mm spec)) (frame_color spec)
         \<and> extents (path_arch_inner (width_mm spec) (height_mm spec) (frame_width_mm spec) 0)
             = Some (inner_x spec, inner_y spec, inner_w spec, inner_h spec)
         \<and> horizontal_rects doc = map (even_bar spec) [0..num_horizontal_bars spec - 1]
         \<and> length (horizontal_rects doc) = nat (num_horizontal_bars spec)"
  proof
    assume g: "generate_window_doc spec = Inr doc"
    then have v: "validate spec = None" by (simp add: generate_window_doc_Inr)
    then have c: "0 \<le> frame_width_mm spec" "2 * frame_width_mm spec < width_mm spec"
      "2 * frame_width_mm spec < height_mm spec" "0 \<le> num_horizontal_bars spec"
      by (simp_all add: validate_None_iff)
    have e: "\<not> (horizontal_distribution_mode spec = ''from_chord'' \<and> 0 < arch_height_mm spec)"
      using assms by simp
    from rects_doc[OF g] horizontal_bars_even[OF v e]
    have hr: "horizontal_rects doc = map (even_bar spec) [0..num_horizontal_bars spec - 1]"
      by simp
    have l: "length (horizontal_rects doc) = nat (num_horizontal_bars spec)"
      using c(4) by (simp add: hr)
    have x: "extents (path_arch_inner (width_mm spec) (height_mm spec) (frame_width_mm spec) 0)
             = Some (inner_x spec, inner_y spec, inner_w spec, inner_h spec)"
      using arch_inner_extents[OF c(1,2,3)]
      by (simp add: inner_x_def inner_y_def inner_w_def inner_h_def)
    from g obtain rest where d: "doc = [XmlDecl, SvgOpen (width_mm spec) (height_mm spec), DefsOpen, ClipPathOpen,
               clip_shape spec, ClipPathClose, DefsClose, glass spec,
               FramePath (frame_path spec) (frame_color spec), GroupOpen] @ rest"
      unfolding generate_window_doc_Inr by blast
    have "doc ! 4 = clip_shape spec" "doc ! 7 = glass spec"
      "doc ! 8 = FramePath (frame_path spec) (frame_color spec)"
      by (simp_all add: d)
    then show "doc ! 4 = ClipShapeRect (inner_x spec) (inner_y spec) (inner_w spec) (inner_h spec)
         \<and> doc ! 7 = GlassRect (inner_x spec) (inner_y spec) (inner_w spec) (inner_h spec)
                        (glass_color spec)
         \<and> doc ! 8 = FramePath (compound_frame_path_rect (width_mm spec) (height_mm spec)
                                   (frame_width_mm spec)) (frame_color spec)
         \<and> extents (path_arch_inner (width_mm spec) (height_mm spec) (frame_width_mm spec) 0)
             = Some (inner_x spec, inner_y spec, inner_w spec, inner_h spec)
         \<and> horizontal_rects doc = map (even_bar spec) [0..num_horizontal_bars spec - 1]
         \<and> length (horizontal_rects doc) = nat (num_horizontal_bars spec)"
      using assms hr l x by (simp add: clip_shape_def glass_def frame_path_def)
  qed
qed

theorem zero_arch_is_rectangle_witness:
  "arch_height_mm rect_example = 0
   \<and> generate_window_doc rect_example = Inr rect_example_doc
   \<and> generate_window_doc (rect_example\<lparr>horizontal_distribution_mode := ''from_chord''\<rparr>)
       = Inr rect_example_doc
   \<and> rect_example_doc ! 4 = ClipShapeRect 10 10 80 80
   \<and> extents (path_arch_inner 100 100 10 0) = Some (10, 10, 80, 80)
   \<and> horizontal_rects rect_example_doc = [Rect Lit0 (Flt 47) 100 6]"
proof -
  have a: "arch_height_mm rect_example = 0" by simp
  have m: "rect_example\<lparr>horizontal_distribution_mode := ''even''\<rparr> = rect_example"
    by (simp add: window_spec_def)
  note t = zero_arch_is_rectangle [OF a, of rect_example_doc]
  from t have "generate_window_doc (rect_example\<lparr>horizontal_distribution_mode := ''from_chord''\<rparr>)
       = Inr rect_example_doc"
    unfolding m by (simp add: rect_example_generates)
  moreover from t rect_example_generates
  have "extents (path_arch_inner (width_mm rect_example) (height_mm rect_example)
                   (frame_width_mm rect_example) 0)
          = Some (inner_x rect_example, inner_y rect_example, inner_w rect_example,
                  inner_h rect_example)"
    by blast
  ultimately show ?thesis
    using rect_example_generates
    by (simp add: rect_example_rects inner_x_def inner_y_def inner_w_def inner_h_def)
qed

end
